theory Spec2Isabelle
  imports Complex_Main "HOL-Library.Log_Nat"
begin

section \<open>Data model\<close>

text \<open>
  The Mongoose schemas of \<^verbatim>\<open>backend/models/User.js\<close> and
  \<^verbatim>\<open>backend/models/Transaction.js\<close>. Every field that a schema declares is
  present with its declared type. A finite JavaScript \<^verbatim>\<open>Number\<close> is the rational
  it denotes; the products the amount block compares with and the quotient of the
  statistics are rounded as IEEE doubles (section ``JavaScript numbers''). Every
  constant the scoring code multiplies into the score (\<^verbatim>\<open>25 * 0.8\<close>,
  \<^verbatim>\<open>25 * 0.5\<close>, \<^verbatim>\<open>20 * 0.6\<close>, \<^verbatim>\<open>20 * 0.7\<close>) rounds to the exact product
  (20, 12.5, 12, 14), as \<open>weight_products_are_exact\<close> shows, and every sum of them
  is a multiple of one half below 101, which doubles hold exactly; so the score is
  kept in exact arithmetic. A \<^verbatim>\<open>Date\<close> is its number of milliseconds since the
  epoch. The field \<^verbatim>\<open>zip\<close> is named \<open>zipCode\<close> and
  \<^verbatim>\<open>activeHours.start/end\<close> are \<open>startHour\<close>/\<open>endHour\<close>. The
  \<^verbatim>\<open>createdAt\<close>/\<^verbatim>\<open>updatedAt\<close> stamps that Mongoose maintains by itself are not
  part of the records.
\<close>

record location =
  country :: string
  city :: string
  zipCode :: string

record card =
  lastFour :: string
  cardType :: string
  isActive :: bool

record activeHours =
  startHour :: int
  endHour :: int

record spendingPatterns =
  averageTransactionAmount :: "rat option"
  frequentCategories :: "string list"
  frequentLocations :: "string list"
  activeHours :: activeHours

record user =
  name :: string
  email :: string
  homeLocation :: location
  cards :: "card list"
  typicalSpendingPatterns :: spendingPatterns

record transaction =
  userId :: nat
  cardLastFour :: string
  amount :: rat
  merchantName :: string
  merchantCategory :: string
  location :: location
  timestamp :: int
  ipAddress :: string
  deviceId :: string
  fraudScore :: rat
  isFlagged :: bool
  isConfirmedFraud :: bool

text \<open>
  What \<^verbatim>\<open>analyzeTransaction\<close> reads from outside its arguments: the clock
  (\<^verbatim>\<open>Date.now()\<close>) and the server's time zone, through which
  \<^verbatim>\<open>new Date(ts).getHours()\<close> turns an instant into a local hour.
\<close>

record clock =
  now :: int
  getHours :: "int \<Rightarrow> int"

text \<open>The object \<^verbatim>\<open>analyzeTransaction\<close> returns; \<open>error\<close> is present on the
  \<^verbatim>\<open>catch\<close> path only.\<close>

record analysis =
  score :: rat
  riskFactors :: "string list"
  isHighRisk :: bool
  error :: "string option"

section \<open>JavaScript numbers\<close>

text \<open>
  The arithmetic of \<^verbatim>\<open>Number\<close>: IEEE 754 binary64 with rounding to nearest, ties
  to even. \<open>roundHalfEven\<close> is the nearest integer, the even one at a tie;
  \<open>exponentOf x\<close> is the \<open>e\<close> with \<open>2^e \<le> |x| < 2^(e+1)\<close>; \<open>toDouble x\<close> is
  the double nearest to \<open>x\<close>: a multiple of \<open>2^(e-52)\<close>, or of \<open>2^(-1074)\<close> in
  the subnormal range. A result of magnitude \<open>2^1024\<close> or more stands for an
  infinity: it compares with every finite double as the infinity does.
\<close>

definition roundHalfEven :: "rat \<Rightarrow> int" where
  "roundHalfEven r =
     (let f = \<lfloor>r\<rfloor>; d = r - of_int f in
        if d < 1 / 2 then f
        else if 1 / 2 < d then f + 1
        else if even f then f else f + 1)"

definition exponentOf :: "rat \<Rightarrow> int" where
  "exponentOf x =
     (let (p, q) = quotient_of \<bar>x\<bar>; k = bitlen p - bitlen q in
        if 2 powi k \<le> \<bar>x\<bar> then k else k - 1)"

definition toDouble :: "rat \<Rightarrow> rat" where
  "toDouble x =
     (if x = 0 then 0
      else (let ulp = 2 powi (max (exponentOf x) (- 1022) - 52) in
              of_int (roundHalfEven (x / ulp)) * ulp))"

text \<open>\<^verbatim>\<open>a * b\<close> and \<^verbatim>\<open>a / b\<close> (for a divisor that is not zero) on two doubles.\<close>

definition jsTimes :: "rat \<Rightarrow> rat \<Rightarrow> rat" where
  "jsTimes a b = toDouble (a * b)"

definition jsDivide :: "rat \<Rightarrow> rat \<Rightarrow> rat" where
  "jsDivide a b = toDouble (a / b)"

text \<open>The smallest positive normal double, and a bound under which five and a half
  times a value is still finite.\<close>

definition minNormal :: rat where
  "minNormal = 2 powi (- 1022)"

definition maxAverage :: rat where
  "maxAverage = 2 powi 1021"

section \<open>String helpers\<close>

text \<open>\<^verbatim>\<open>String.prototype.includes\<close>: the argument occurs as a contiguous run.\<close>

fun startsWith :: "string \<Rightarrow> string \<Rightarrow> bool" where
  "startsWith s [] = True"
| "startsWith [] (c # cs) = False"
| "startsWith (x # xs) (c # cs) = (x = c \<and> startsWith xs cs)"

fun strIncludes :: "string \<Rightarrow> string \<Rightarrow> bool" where
  "strIncludes [] sub = (sub = [])"
| "strIncludes (x # xs) sub = (startsWith (x # xs) sub \<or> strIncludes xs sub)"

section \<open>The fraud detection service\<close>

text \<open>The local variables \<^verbatim>\<open>score\<close> and \<^verbatim>\<open>riskFactors\<close> that the six blocks of
  \<^verbatim>\<open>analyzeTransaction\<close> update in turn.\<close>

record tally =
  tScore :: rat
  tFactors :: "string list"

definition tally0 :: tally where
  "tally0 = \<lparr>tScore = 0, tFactors = []\<rparr>"

text \<open>\<^verbatim>\<open>score += w; riskFactors.push(msg)\<close>\<close>

definition flag :: "rat \<Rightarrow> string \<Rightarrow> tally \<Rightarrow> tally" where
  "flag w msg t = \<lparr>tScore = tScore t + w, tFactors = tFactors t @ [msg]\<rparr>"

record weightTable =
  wAmount :: rat
  wLocation :: rat
  wCategory :: rat
  wTime :: rat
  wFrequency :: rat
  wDevice :: rat

definition weights :: weightTable where
  "weights = \<lparr>wAmount = 25, wLocation = 20, wCategory = 15, wTime = 15,
     wFrequency = 20, wDevice = 5\<rparr>"

text \<open>\<^verbatim>\<open>user.typicalSpendingPatterns.averageTransactionAmount || 100\<close>: a missing
  average and the falsy average 0 both give 100.\<close>

definition userAvgAmount :: "user \<Rightarrow> rat" where
  "userAvgAmount u =
     (case averageTransactionAmount (typicalSpendingPatterns u) of
        None \<Rightarrow> 100
      | Some a \<Rightarrow> if a = 0 then 100 else a)"

text \<open>Factor 1: amount analysis.\<close>

definition amountFactor :: "user \<Rightarrow> transaction \<Rightarrow> tally \<Rightarrow> tally" where
  "amountFactor u tx t =
     (if amount tx > jsTimes (userAvgAmount u) 5 then
        flag (wAmount weights) ''Transaction amount 5x higher than user average'' t
      else if amount tx > jsTimes (userAvgAmount u) 3 then
        flag (wAmount weights * (8 / 10)) ''Transaction amount 3x higher than user average'' t
      else if amount tx > jsTimes (userAvgAmount u) 2 then
        flag (wAmount weights * (5 / 10)) ''Transaction amount 2x higher than user average'' t
      else t)"

text \<open>Factor 2: location analysis.\<close>

definition isKnownLocation :: "user \<Rightarrow> transaction \<Rightarrow> bool" where
  "isKnownLocation u tx =
     list_ex (\<lambda>loc. strIncludes (city (location tx)) loc \<or> strIncludes loc (city (location tx)))
       (frequentLocations (typicalSpendingPatterns u))"

definition locationFactor :: "user \<Rightarrow> transaction \<Rightarrow> tally \<Rightarrow> tally" where
  "locationFactor u tx t =
     (if country (location tx) \<noteq> country (homeLocation u) then
        flag (wLocation weights) ''Transaction from foreign country'' t
      else if \<not> isKnownLocation u tx \<and> city (location tx) \<noteq> ''Online'' then
        flag (wLocation weights * (6 / 10)) ''Transaction from unusual city'' t
      else t)"

text \<open>Factor 3: merchant category analysis.\<close>

definition isUnusualCategory :: "user \<Rightarrow> transaction \<Rightarrow> bool" where
  "isUnusualCategory u tx =
     (merchantCategory tx \<notin> set (frequentCategories (typicalSpendingPatterns u)))"

definition categoryFactor :: "user \<Rightarrow> transaction \<Rightarrow> tally \<Rightarrow> tally" where
  "categoryFactor u tx t =
     (if isUnusualCategory u tx then
        flag (wCategory weights) ''Unusual merchant category for this user'' t
      else t)"

text \<open>Factor 4: time analysis.\<close>

definition isOutsideActiveHours :: "clock \<Rightarrow> user \<Rightarrow> transaction \<Rightarrow> bool" where
  "isOutsideActiveHours c u tx =
     (let transactionHour = getHours c (timestamp tx) in
        transactionHour < startHour (activeHours (typicalSpendingPatterns u)) \<or>
        transactionHour > endHour (activeHours (typicalSpendingPatterns u)))"

definition timeFactor :: "clock \<Rightarrow> user \<Rightarrow> transaction \<Rightarrow> tally \<Rightarrow> tally" where
  "timeFactor c u tx t =
     (if isOutsideActiveHours c u tx then
        flag (wTime weights) ''Transaction outside typical active hours'' t
      else t)"

text \<open>Factor 5: frequency analysis.\<close>

definition recentCount :: "clock \<Rightarrow> transaction list \<Rightarrow> nat" where
  "recentCount c recentTransactions =
     (let last24Hours = now c - 24 * 60 * 60 * 1000 in
        length (filter (\<lambda>t. timestamp t > last24Hours) recentTransactions))"

definition frequencyFactor :: "clock \<Rightarrow> transaction list \<Rightarrow> tally \<Rightarrow> tally" where
  "frequencyFactor c recentTransactions t =
     (if recentCount c recentTransactions > 8 then
        flag (wFrequency weights) ''Extremely high transaction frequency (>8 in 24h)'' t
      else if recentCount c recentTransactions > 5 then
        flag (wFrequency weights * (7 / 10)) ''High transaction frequency (>5 in 24h)'' t
      else t)"

text \<open>Factor 6: device analysis.\<close>

definition isKnownDevice :: "transaction list \<Rightarrow> transaction \<Rightarrow> bool" where
  "isKnownDevice recentTransactions tx =
     list_ex (\<lambda>t. deviceId t = deviceId tx) recentTransactions"

definition deviceFactor :: "transaction list \<Rightarrow> transaction \<Rightarrow> tally \<Rightarrow> tally" where
  "deviceFactor recentTransactions tx t =
     (if \<not> isKnownDevice recentTransactions tx \<and> deviceId tx \<noteq> ''unknown_device'' then
        flag (wDevice weights) ''Transaction from new device'' t
      else t)"

text \<open>
  The body of the \<^verbatim>\<open>try\<close> block. Its arguments are what the two queries returned:
  \<open>found\<close> is the result of \<^verbatim>\<open>User.findById(transaction.userId)\<close> (\<open>None\<close> for
  \<^verbatim>\<open>null\<close>) and \<open>recentTransactions\<close> the at most ten newest transactions of the
  user. \<open>Inl\<close> carries the message of a thrown \<^verbatim>\<open>Error\<close>.
\<close>

definition analyzeBody ::
  "clock \<Rightarrow> user option \<Rightarrow> transaction list \<Rightarrow> transaction \<Rightarrow> string + analysis" where
  "analyzeBody c found recentTransactions tx =
     (case found of
        None \<Rightarrow> Inl ''User not found''
      | Some u \<Rightarrow>
          (let t = deviceFactor recentTransactions tx
                     (frequencyFactor c recentTransactions
                       (timeFactor c u tx
                         (categoryFactor u tx
                           (locationFactor u tx
                             (amountFactor u tx tally0)))))
           in Inr \<lparr>score = tScore t, riskFactors = tFactors t,
                    isHighRisk = (tScore t > 70), error = None\<rparr>))"

text \<open>\<^verbatim>\<open>analyzeTransaction\<close>: the \<^verbatim>\<open>try\<close> block with its \<^verbatim>\<open>catch\<close>, which turns
  every thrown error into a result object.\<close>

definition analyzeTransaction ::
  "clock \<Rightarrow> user option \<Rightarrow> transaction list \<Rightarrow> transaction \<Rightarrow> analysis" where
  "analyzeTransaction c found recentTransactions tx =
     (case analyzeBody c found recentTransactions tx of
        Inr r \<Rightarrow> r
      | Inl msg \<Rightarrow> \<lparr>score = 0, riskFactors = [''Error analyzing transaction''],
                     isHighRisk = False, error = Some msg\<rparr>)"

section \<open>The transaction controller\<close>

text \<open>
  \<^verbatim>\<open>processTransaction\<close>: the request body is analysed, then saved with
  \<^verbatim>\<open>fraudScore\<close> and \<^verbatim>\<open>isFlagged\<close> set from the analysis; the other fields of
  the body are spread into the new document as they are. The reply (status 201)
  carries the saved document and the analysis.
\<close>

record processed =
  savedTransaction :: transaction
  fraudAnalysis :: analysis

definition processTransaction ::
  "clock \<Rightarrow> user option \<Rightarrow> transaction list \<Rightarrow> transaction \<Rightarrow> processed" where
  "processTransaction c found recentTransactions body =
     (let fa = analyzeTransaction c found recentTransactions body in
        \<lparr>savedTransaction = body\<lparr>fraudScore := score fa, isFlagged := (score fa > 70)\<rparr>,
         fraudAnalysis = fa\<rparr>)"

text \<open>
  \<^verbatim>\<open>updateFraudStatus\<close>. The collection is a map from document ids to documents;
  the field \<^verbatim>\<open>isConfirmedFraud\<close> of the request body is \<open>None\<close> when it is
  \<^verbatim>\<open>undefined\<close>. The handler returns the collection after \<^verbatim>\<open>save()\<close> and its reply.
\<close>

datatype reply =
  Status400 string
| Status404 string
| Status200 transaction

type_synonym collection = "nat \<rightharpoonup> transaction"

definition updateFraudStatus ::
  "collection \<Rightarrow> nat \<Rightarrow> bool option \<Rightarrow> collection \<times> reply" where
  "updateFraudStatus db ident body =
     (case body of
        None \<Rightarrow> (db, Status400 ''isConfirmedFraud field is required'')
      | Some confirmed \<Rightarrow>
          (case db ident of
             None \<Rightarrow> (db, Status404 ''Transaction not found'')
           | Some tx \<Rightarrow>
               (let tx1 = tx\<lparr>isConfirmedFraud := confirmed\<rparr>;
                    tx2 = (if confirmed = False then tx1\<lparr>isFlagged := False\<rparr> else tx1)
                in (db(ident \<mapsto> tx2), Status200 tx2))))"

section \<open>Statistics\<close>

text \<open>
  The value of a JavaScript \<^verbatim>\<open>Number\<close> expression over document counts: a finite
  double, an infinity, or \<^verbatim>\<open>NaN\<close>.
\<close>

datatype number = Finite rat | Infinity | NaN

text \<open>\<^verbatim>\<open>a / b\<close> for two counts: \<^verbatim>\<open>0 / 0\<close> is \<^verbatim>\<open>NaN\<close>, \<^verbatim>\<open>a / 0\<close> is
  \<^verbatim>\<open>Infinity\<close> for a positive \<open>a\<close>.\<close>

definition divideCounts :: "nat \<Rightarrow> nat \<Rightarrow> number" where
  "divideCounts a b =
     (if b = 0 then (if a = 0 then NaN else Infinity)
      else Finite (jsDivide (rat_of_nat a) (rat_of_nat b)))"

fun times :: "number \<Rightarrow> rat \<Rightarrow> number" where
  "times (Finite x) k = Finite (jsTimes x k)"
| "times Infinity k = Infinity"
| "times NaN k = NaN"

definition digit :: "nat \<Rightarrow> char" where
  "digit d = ''0123456789'' ! (d mod 10)"

fun decimal :: "nat \<Rightarrow> string" where
  "decimal n = (if n < 10 then [digit n] else decimal (n div 10) @ [digit (n mod 10)])"

text \<open>
  \<^verbatim>\<open>Number.prototype.toFixed(2)\<close> on a value that is not negative: \<^verbatim>\<open>NaN\<close> and
  \<^verbatim>\<open>Infinity\<close> print as their names; a finite \<open>x\<close> prints the integer \<open>n\<close>
  nearest to \<open>100 * x\<close> (the larger one at a tie) with a point before its last
  two digits.
\<close>

fun toFixed2 :: "number \<Rightarrow> string" where
  "toFixed2 NaN = ''NaN''"
| "toFixed2 Infinity = ''Infinity''"
| "toFixed2 (Finite x) =
     (let n = nat \<lfloor>x * 100 + 1 / 2\<rfloor> in
        decimal (n div 100) @ ''.'' @ [digit (n div 10)] @ [digit n])"

text \<open>
  The summary that \<^verbatim>\<open>getFraudStatistics\<close> returns and that
  \<^verbatim>\<open>getTransactionStats\<close> sends, over the whole collection: three
  \<^verbatim>\<open>countDocuments\<close> queries and the percentage
  \<^verbatim>\<open>(flaggedTransactions / totalTransactions * 100).toFixed(2)\<close>. The grouped
  aggregations of the two functions do not enter the summary.
\<close>

record summary =
  totalTransactions :: nat
  flaggedTransactions :: nat
  confirmedFraudTransactions :: nat
  flaggedPercentage :: string

definition countDocuments :: "(transaction \<Rightarrow> bool) \<Rightarrow> transaction list \<Rightarrow> nat" where
  "countDocuments p docs = length (filter p docs)"

definition getFraudStatistics :: "transaction list \<Rightarrow> summary" where
  "getFraudStatistics docs =
     (let total = countDocuments (\<lambda>t. True) docs;
          flagged = countDocuments (\<lambda>t. isFlagged t = True) docs;
          confirmed = countDocuments (\<lambda>t. isConfirmedFraud t = True) docs
      in \<lparr>totalTransactions = total, flaggedTransactions = flagged,
           confirmedFraudTransactions = confirmed,
           flaggedPercentage = toFixed2 (times (divideCounts flagged total) 100)\<rparr>)"

definition getTransactionStats :: "transaction list \<Rightarrow> summary" where
  "getTransactionStats docs =
     (let total = countDocuments (\<lambda>t. True) docs;
          flagged = countDocuments (\<lambda>t. isFlagged t = True) docs;
          confirmed = countDocuments (\<lambda>t. isConfirmedFraud t = True) docs
      in \<lparr>totalTransactions = total, flaggedTransactions = flagged,
           confirmedFraudTransactions = confirmed,
           flaggedPercentage = toFixed2 (times (divideCounts flagged total) 100)\<rparr>)"

section \<open>Contributions of the six factors\<close>

text \<open>
  Each block of \<^verbatim>\<open>analyzeTransaction\<close> is a function on the running score and
  list. What a block contributes is what it makes of the initial values
  \<^verbatim>\<open>score = 0\<close>, \<^verbatim>\<open>riskFactors = []\<close>; a block is additive at a tally when it adds
  that contribution and appends those strings there.
\<close>

definition contribution :: "(tally \<Rightarrow> tally) \<Rightarrow> rat" where
  "contribution f = tScore (f tally0)"

definition labels :: "(tally \<Rightarrow> tally) \<Rightarrow> string list" where
  "labels f = tFactors (f tally0)"

definition additive :: "(tally \<Rightarrow> tally) \<Rightarrow> tally \<Rightarrow> bool" where
  "additive f t =
     (f t = \<lparr>tScore = tScore t + contribution f, tFactors = tFactors t @ labels f\<rparr>)"

section \<open>Sample data\<close>

text \<open>A server whose local time is UTC, at the instant \<open>n\<close>.\<close>

definition utcHours :: "int \<Rightarrow> int" where
  "utcHours ts = (ts div 3600000) mod 24"

definition utcClock :: "int \<Rightarrow> clock" where
  "utcClock n = \<lparr>now = n, getHours = utcHours\<rparr>"

text \<open>The first user of \<^verbatim>\<open>backend/scripts/seedData.js\<close>.\<close>

definition johnSmith :: user where
  "johnSmith =
     \<lparr>name = ''John Smith'', email = ''john.smith@example.com'',
      homeLocation = \<lparr>country = ''USA'', city = ''New York'', zipCode = ''10001''\<rparr>,
      cards = [\<lparr>lastFour = ''4321'', cardType = ''Visa'', isActive = True\<rparr>],
      typicalSpendingPatterns =
        \<lparr>averageTransactionAmount = Some 120,
         frequentCategories = [''groceries'', ''dining'', ''retail''],
         frequentLocations = [''New York'', ''Online''],
         activeHours = \<lparr>startHour = 8, endHour = 23\<rparr>\<rparr>\<rparr>"

text \<open>The profile of the scored scenario: average 100, one frequent category.\<close>

definition scenarioUser :: user where
  "scenarioUser =
     johnSmith\<lparr>typicalSpendingPatterns :=
       (typicalSpendingPatterns johnSmith)
         \<lparr>averageTransactionAmount := Some 100, frequentCategories := [''groceries'']\<rparr>\<rparr>"

text \<open>The same user with the average amount 0 recorded.\<close>

definition zeroAverageUser :: user where
  "zeroAverageUser =
     johnSmith\<lparr>typicalSpendingPatterns :=
       (typicalSpendingPatterns johnSmith)\<lparr>averageTransactionAmount := Some 0\<rparr>\<rparr>"

text \<open>The same user with no average amount recorded.\<close>

definition noBaselineUser :: user where
  "noBaselineUser =
     johnSmith\<lparr>typicalSpendingPatterns :=
       (typicalSpendingPatterns johnSmith)\<lparr>averageTransactionAmount := None\<rparr>\<rparr>"

text \<open>The seed script's regular purchase, from the device \<^verbatim>\<open>dev1\<close> at the instant
  \<open>ts\<close>, and its unusually large purchase abroad, of the amount \<open>a\<close>.\<close>

definition groceryPurchase :: "int \<Rightarrow> transaction" where
  "groceryPurchase ts =
     \<lparr>userId = 1, cardLastFour = ''4321'', amount = 110,
      merchantName = ''Local Grocery Store'', merchantCategory = ''groceries'',
      location = \<lparr>country = ''USA'', city = ''New York'', zipCode = ''10001''\<rparr>,
      timestamp = ts, ipAddress = ''192.168.1.1'', deviceId = ''dev1'',
      fraudScore = 10, isFlagged = False, isConfirmedFraud = False\<rparr>"

definition electronicsPurchase :: "rat \<Rightarrow> int \<Rightarrow> transaction" where
  "electronicsPurchase a ts =
     \<lparr>userId = 1, cardLastFour = ''4321'', amount = a,
      merchantName = ''Luxury Electronics'', merchantCategory = ''electronics'',
      location = \<lparr>country = ''Nigeria'', city = ''Lagos'', zipCode = ''23401''\<rparr>,
      timestamp = ts, ipAddress = ''85.214.45.22'', deviceId = ''dev1'',
      fraudScore = 0, isFlagged = False, isConfirmedFraud = False\<rparr>"

text \<open>The seed script's flagged purchase as it is stored: score 85, flagged.\<close>

definition flaggedPurchase :: transaction where
  "flaggedPurchase =
     (electronicsPurchase 600 0)\<lparr>deviceId := ''unknown_device'', fraudScore := 85,
        isFlagged := True\<rparr>"

text \<open>Two o'clock in the afternoon of the first day, in milliseconds.\<close>

definition twoPM :: int where
  "twoPM = 14 * 3600000"

section \<open>Properties of the rounding\<close>

text \<open>Rounding moves a value of the normal range by at most one part in \<open>2^53\<close>, so
  the thresholds of the amount tiers keep their order.\<close>

lemma roundHalfEven_error: "\<bar>of_int (roundHalfEven r) - r\<bar> \<le> 1 / 2"
proof -
  have "of_int \<lfloor>r\<rfloor> \<le> r" "r < of_int \<lfloor>r\<rfloor> + 1"
    by linarith+
  then show ?thesis
    by (auto simp: roundHalfEven_def Let_def)
qed

lemma exponentOf_lower:
  assumes "x \<noteq> 0"
  shows "2 powi exponentOf x \<le> \<bar>x\<bar>"
proof -
  obtain p q where pq: "quotient_of \<bar>x\<bar> = (p, q)"
    by (cases "quotient_of \<bar>x\<bar>")
  have q: "0 < q"
    using pq by (rule quotient_of_denom_pos)
  have x: "\<bar>x\<bar> = of_int p / of_int q"
    using pq by (rule quotient_of_div)
  have p: "0 < p"
  proof -
    have "0 < \<bar>x\<bar>" using assms by simp
    then have "0 < (of_int p :: rat) / of_int q" using x by simp
    then show ?thesis using q by (simp add: zero_less_divide_iff)
  qed
  let ?k = "bitlen p - bitlen q"
  have bp: "2 ^ nat (bitlen p - 1) \<le> p" and bq: "q < 2 ^ nat (bitlen q)"
    using bitlen_bounds [OF p] bitlen_bounds [OF q] by auto
  have bp1: "1 \<le> bitlen p"
    using p bitlen_eq_zero_iff [of p] bitlen_nonneg [of p] by linarith
  have k1: "?k - 1 = (bitlen p - 1) - bitlen q"
    by simp
  have "(2::rat) powi (?k - 1) = 2 powi (bitlen p - 1) / 2 powi bitlen q"
    unfolding k1 by (rule power_int_diff) simp
  also have "\<dots> = 2 ^ nat (bitlen p - 1) / 2 ^ nat (bitlen q)"
    using bp1 bitlen_nonneg [of q] by (simp add: power_int_def)
  also have "\<dots> \<le> of_int p / of_int q"
  proof -
    have 1: "(2::rat) ^ nat (bitlen p - 1) \<le> of_int p"
      using bp by (metis of_int_le_iff of_int_numeral of_int_power)
    have 2: "(of_int q :: rat) \<le> 2 ^ nat (bitlen q)"
      using bq by (metis less_imp_le of_int_le_iff of_int_numeral of_int_power)
    have 3: "(0::rat) \<le> of_int p" "(0::rat) < of_int q"
      using p q by simp_all
    show ?thesis
      using 1 2 3 by (intro frac_le)
  qed
  finally have low: "(2::rat) powi (?k - 1) \<le> \<bar>x\<bar>"
    using x by simp
  show ?thesis
    using low by (simp add: exponentOf_def pq Let_def)
qed

lemma toDouble_error:
  assumes "minNormal \<le> x"
  shows "\<bar>toDouble x - x\<bar> \<le> x / 2 ^ 53"
proof -
  have mpos: "0 < minNormal"
    by (simp add: minNormal_def)
  have pos: "0 < x"
    using assms mpos by linarith
  define ulp :: rat where "ulp = 2 powi (max (exponentOf x) (- 1022) - 52)"
  have upos: "0 < ulp"
    by (simp add: ulp_def)
  have "ulp = 2 powi (max (exponentOf x) (- 1022)) / 2 ^ 52"
    by (simp add: ulp_def power_int_diff)
  moreover have "(2::rat) powi (max (exponentOf x) (- 1022)) \<le> x"
  proof (cases "exponentOf x \<le> - 1022")
    case True
    then show ?thesis using assms by (simp add: max_def minNormal_def)
  next
    case False
    then show ?thesis using exponentOf_lower [of x] pos by (simp add: max_def)
  qed
  ultimately have ulp_le: "ulp \<le> x / 2 ^ 52"
    by (simp add: divide_right_mono)
  have td: "toDouble x = of_int (roundHalfEven (x / ulp)) * ulp"
    using pos by (simp add: toDouble_def ulp_def Let_def)
  have "\<bar>toDouble x - x\<bar> = \<bar>of_int (roundHalfEven (x / ulp)) - x / ulp\<bar> * ulp"
  proof -
    have "toDouble x - x = (of_int (roundHalfEven (x / ulp)) - x / ulp) * ulp"
      using upos by (simp add: td algebra_simps)
    then show ?thesis
      using upos by (simp add: abs_mult)
  qed
  also have "\<dots> \<le> (1 / 2) * ulp"
    using roundHalfEven_error [of "x / ulp"] upos by (intro mult_right_mono) auto
  also have "\<dots> \<le> (1 / 2) * (x / 2 ^ 52)"
    using ulp_le by simp
  also have "\<dots> = x / 2 ^ 53"
    by simp
  finally show ?thesis .
qed

lemma toDouble_near:
  assumes "minNormal \<le> x"
  shows "x - x / 1000 \<le> toDouble x" and "toDouble x \<le> x + x / 1000"
proof -
  have mpos: "0 < minNormal"
    by (simp add: minNormal_def)
  have pos: "0 < x"
    using assms mpos by linarith
  have "x / 2 ^ 53 \<le> x / 1000"
    using pos by (intro divide_left_mono) auto
  then have e: "\<bar>toDouble x - x\<bar> \<le> x / 1000"
    using toDouble_error [OF assms] by linarith
  show "x - x / 1000 \<le> toDouble x" and "toDouble x \<le> x + x / 1000"
    using e by linarith+
qed

lemma tiers_separate:
  assumes "minNormal \<le> a"
  shows "jsTimes a 5 < jsTimes a (55 / 10)"
    and "jsTimes a 3 < jsTimes a (35 / 10)"
    and "jsTimes a (35 / 10) \<le> jsTimes a 5"
proof -
  have mpos: "0 < minNormal"
    by (simp add: minNormal_def)
  have pos: "0 < a"
    using assms mpos by linarith
  define t5 t3 t55 t35 where "t5 = toDouble (a * 5)" and "t3 = toDouble (a * 3)"
    and "t55 = toDouble (a * (55 / 10))" and "t35 = toDouble (a * (35 / 10))"
  have e5: "a * 5 - a * 5 / 1000 \<le> t5" "t5 \<le> a * 5 + a * 5 / 1000"
    unfolding t5_def using assms pos by (intro toDouble_near; linarith)+
  have e3: "t3 \<le> a * 3 + a * 3 / 1000"
    unfolding t3_def using assms pos by (intro toDouble_near; linarith)
  have e55: "a * (55 / 10) - a * (55 / 10) / 1000 \<le> t55"
    unfolding t55_def using assms pos by (intro toDouble_near; linarith)
  have e35: "a * (35 / 10) - a * (35 / 10) / 1000 \<le> t35"
    "t35 \<le> a * (35 / 10) + a * (35 / 10) / 1000"
    unfolding t35_def using assms pos by (intro toDouble_near; linarith)+
  have "t5 < t55" "t3 < t35" "t35 \<le> t5"
    using e5 e3 e55 e35 pos by linarith+
  then show "jsTimes a 5 < jsTimes a (55 / 10)"
    and "jsTimes a 3 < jsTimes a (35 / 10)"
    and "jsTimes a (35 / 10) \<le> jsTimes a 5"
    by (simp_all add: jsTimes_def t5_def t3_def t55_def t35_def)
qed

text \<open>The products of the scoring code, as the code computes them.\<close>

lemma weight_products_are_exact:
  "jsTimes 25 (toDouble (8 / 10)) = 25 * (8 / 10)"
  "jsTimes 25 (toDouble (5 / 10)) = 25 * (5 / 10)"
  "jsTimes 20 (toDouble (6 / 10)) = 20 * (6 / 10)"
  "jsTimes 20 (toDouble (7 / 10)) = 20 * (7 / 10)"
  by code_simp+

lemma thresholds_of_100:
  "jsTimes 100 5 = 500" "jsTimes 100 3 = 300" "jsTimes 100 2 = 200"
  by code_simp+

lemma thresholds_of_120:
  "jsTimes 120 5 = 600" "jsTimes 120 3 = 360" "jsTimes 120 2 = 240"
  "jsTimes 120 (11 / 2) = 660" "jsTimes 120 (7 / 2) = 420"
  by code_simp+

lemma normal_range_120: "minNormal \<le> 120" "120 \<le> maxAverage"
proof -
  have "(2::rat) powi (- 1022) \<le> 1"
    by (simp add: power_int_def power_le_one)
  then show "minNormal \<le> 120"
    by (simp add: minNormal_def)
  have "(2::rat) ^ 7 \<le> 2 ^ 1021"
    by (rule power_increasing) simp_all
  then show "120 \<le> maxAverage"
    by (simp add: maxAverage_def power_int_def)
qed

section \<open>Properties of the factors\<close>

lemma amountFactor_additive: "additive (amountFactor u tx) t"
  by (simp add: additive_def amountFactor_def contribution_def labels_def flag_def tally0_def)

lemma locationFactor_additive: "additive (locationFactor u tx) t"
  by (simp add: additive_def locationFactor_def contribution_def labels_def flag_def tally0_def)

lemma categoryFactor_additive: "additive (categoryFactor u tx) t"
  by (simp add: additive_def categoryFactor_def contribution_def labels_def flag_def tally0_def)

lemma timeFactor_additive: "additive (timeFactor c u tx) t"
  by (simp add: additive_def timeFactor_def contribution_def labels_def flag_def tally0_def)

lemma frequencyFactor_additive: "additive (frequencyFactor c rs) t"
  by (simp add: additive_def frequencyFactor_def contribution_def labels_def flag_def tally0_def)

lemma deviceFactor_additive: "additive (deviceFactor rs tx) t"
  by (simp add: additive_def deviceFactor_def contribution_def labels_def flag_def tally0_def)

lemma amount_contribution:
  "contribution (amountFactor u tx) =
     (if amount tx > jsTimes (userAvgAmount u) 5 then 25
      else if amount tx > jsTimes (userAvgAmount u) 3 then 20
      else if amount tx > jsTimes (userAvgAmount u) 2 then 25 / 2 else 0)"
  by (simp add: amountFactor_def contribution_def flag_def tally0_def weights_def)

lemma amount_labels:
  "labels (amountFactor u tx) =
     (if amount tx > jsTimes (userAvgAmount u) 5
        then [''Transaction amount 5x higher than user average'']
      else if amount tx > jsTimes (userAvgAmount u) 3
        then [''Transaction amount 3x higher than user average'']
      else if amount tx > jsTimes (userAvgAmount u) 2
        then [''Transaction amount 2x higher than user average'']
      else [])"
  by (simp add: amountFactor_def labels_def flag_def tally0_def)

lemma location_contribution:
  "contribution (locationFactor u tx) =
     (if country (location tx) \<noteq> country (homeLocation u) then 20
      else if \<not> isKnownLocation u tx \<and> city (location tx) \<noteq> ''Online'' then 12 else 0)"
  by (simp add: locationFactor_def contribution_def flag_def tally0_def weights_def)

lemma location_labels:
  "labels (locationFactor u tx) =
     (if country (location tx) \<noteq> country (homeLocation u)
        then [''Transaction from foreign country'']
      else if \<not> isKnownLocation u tx \<and> city (location tx) \<noteq> ''Online''
        then [''Transaction from unusual city'']
      else [])"
  by (simp add: locationFactor_def labels_def flag_def tally0_def)

lemma category_contribution:
  "contribution (categoryFactor u tx) = (if isUnusualCategory u tx then 15 else 0)"
  by (simp add: categoryFactor_def contribution_def flag_def tally0_def weights_def)

lemma category_labels:
  "labels (categoryFactor u tx) =
     (if isUnusualCategory u tx then [''Unusual merchant category for this user''] else [])"
  by (simp add: categoryFactor_def labels_def flag_def tally0_def)

lemma time_contribution:
  "contribution (timeFactor c u tx) = (if isOutsideActiveHours c u tx then 15 else 0)"
  by (simp add: timeFactor_def contribution_def flag_def tally0_def weights_def)

lemma time_labels:
  "labels (timeFactor c u tx) =
     (if isOutsideActiveHours c u tx then [''Transaction outside typical active hours'']
      else [])"
  by (simp add: timeFactor_def labels_def flag_def tally0_def)

lemma frequency_contribution:
  "contribution (frequencyFactor c rs) =
     (if recentCount c rs > 8 then 20 else if recentCount c rs > 5 then 14 else 0)"
  by (simp add: frequencyFactor_def contribution_def flag_def tally0_def weights_def)

lemma frequency_labels:
  "labels (frequencyFactor c rs) =
     (if recentCount c rs > 8 then [''Extremely high transaction frequency (>8 in 24h)'']
      else if recentCount c rs > 5 then [''High transaction frequency (>5 in 24h)'']
      else [])"
  by (simp add: frequencyFactor_def labels_def flag_def tally0_def)

lemma device_contribution:
  "contribution (deviceFactor rs tx) =
     (if \<not> isKnownDevice rs tx \<and> deviceId tx \<noteq> ''unknown_device'' then 5 else 0)"
  by (simp add: deviceFactor_def contribution_def flag_def tally0_def weights_def)

lemma device_labels:
  "labels (deviceFactor rs tx) =
     (if \<not> isKnownDevice rs tx \<and> deviceId tx \<noteq> ''unknown_device''
        then [''Transaction from new device'']
      else [])"
  by (simp add: deviceFactor_def labels_def flag_def tally0_def)

text \<open>With a profile at hand, the result is assembled from the six contributions.\<close>

lemma analyze_found:
  "analyzeTransaction c (Some u) rs tx =
     \<lparr>score = contribution (amountFactor u tx) + contribution (locationFactor u tx)
          + contribution (categoryFactor u tx) + contribution (timeFactor c u tx)
          + contribution (frequencyFactor c rs) + contribution (deviceFactor rs tx),
      riskFactors = labels (amountFactor u tx) @ labels (locationFactor u tx)
          @ labels (categoryFactor u tx) @ labels (timeFactor c u tx)
          @ labels (frequencyFactor c rs) @ labels (deviceFactor rs tx),
      isHighRisk = (contribution (amountFactor u tx) + contribution (locationFactor u tx)
          + contribution (categoryFactor u tx) + contribution (timeFactor c u tx)
          + contribution (frequencyFactor c rs) + contribution (deviceFactor rs tx) > 70),
      error = None\<rparr>"
proof -
  have a: "amountFactor u tx tally0 =
      \<lparr>tScore = contribution (amountFactor u tx), tFactors = labels (amountFactor u tx)\<rparr>"
    by (simp add: contribution_def labels_def)
  show ?thesis
    unfolding analyzeTransaction_def analyzeBody_def
    using deviceFactor_additive[unfolded additive_def, of rs tx]
      frequencyFactor_additive[unfolded additive_def, of c rs]
      timeFactor_additive[unfolded additive_def, of c u tx]
      categoryFactor_additive[unfolded additive_def, of u tx]
      locationFactor_additive[unfolded additive_def, of u tx]
    by (simp add: a Let_def)
qed

text \<open>Without a profile, the \<^verbatim>\<open>catch\<close> block builds the result.\<close>

lemma analyze_not_found:
  "analyzeTransaction c None rs tx =
     \<lparr>score = 0, riskFactors = [''Error analyzing transaction''], isHighRisk = False,
      error = Some ''User not found''\<rparr>"
  by (simp add: analyzeTransaction_def analyzeBody_def)

section \<open>The scored scenario\<close>

text \<open>
  Claim C1. A profile with average amount 100, home country USA, the one frequent
  category groceries and active hours 8 to 23; a recent history that holds a
  transaction of the device dev1 and at most two transactions of the last 24 hours;
  a transaction of 550 in Nigeria, of category electronics, at the local hour 14,
  from dev1. The result is the score 60 (amount 25, location 20, category 15), not
  high risk, with the three strings of amount, location and category in this order.
\<close>

theorem scenario_score_60:
  assumes "averageTransactionAmount (typicalSpendingPatterns u) = Some 100"
    and "country (homeLocation u) = ''USA''"
    and "set (frequentCategories (typicalSpendingPatterns u)) = {''groceries''}"
    and "startHour (activeHours (typicalSpendingPatterns u)) = 8"
    and "endHour (activeHours (typicalSpendingPatterns u)) = 23"
    and "r \<in> set rs" and "deviceId r = ''dev1''"
    and "recentCount c rs \<le> 2"
    and "amount tx = 550"
    and "country (location tx) = ''Nigeria''"
    and "merchantCategory tx = ''electronics''"
    and "getHours c (timestamp tx) = 14"
    and "deviceId tx = ''dev1''"
  shows "analyzeTransaction c (Some u) rs tx =
     \<lparr>score = 60,
      riskFactors = [''Transaction amount 5x higher than user average'',
                     ''Transaction from foreign country'',
                     ''Unusual merchant category for this user''],
      isHighRisk = False, error = None\<rparr>"
proof -
  have avg: "userAvgAmount u = 100"
    using assms(1) by (simp add: userAvgAmount_def)
  have cat: "isUnusualCategory u tx"
    using assms(3,11) by (simp add: isUnusualCategory_def)
  have hrs: "\<not> isOutsideActiveHours c u tx"
    using assms(4,5,12) by (simp add: isOutsideActiveHours_def)
  have dev: "isKnownDevice rs tx"
    using assms(6,7,13) by (auto simp: isKnownDevice_def list_ex_iff)
  show ?thesis
    using assms(2,8,9,10) avg cat hrs dev
    by (simp add: thresholds_of_100 analyze_found amount_contribution amount_labels location_contribution
        location_labels category_contribution category_labels time_contribution time_labels
        frequency_contribution frequency_labels device_contribution device_labels)
qed

text \<open>The scenario on the sample data, on a server in UTC one minute after the
  transaction.\<close>

theorem scenario_score_60_witness:
  "analyzeTransaction (utcClock (twoPM + 60000)) (Some scenarioUser)
     [groceryPurchase (twoPM - 3600000), groceryPurchase (twoPM - 7200000)]
     (electronicsPurchase 550 twoPM) =
     \<lparr>score = 60,
      riskFactors = [''Transaction amount 5x higher than user average'',
                     ''Transaction from foreign country'',
                     ''Unusual merchant category for this user''],
      isHighRisk = False, error = None\<rparr>"
proof -
  have 1: "averageTransactionAmount (typicalSpendingPatterns scenarioUser) = Some 100"
    by (simp add: scenarioUser_def)
  have 2: "country (homeLocation scenarioUser) = ''USA''"
    by (simp add: scenarioUser_def johnSmith_def)
  have 3: "set (frequentCategories (typicalSpendingPatterns scenarioUser)) = {''groceries''}"
    by (simp add: scenarioUser_def)
  have 4: "startHour (activeHours (typicalSpendingPatterns scenarioUser)) = 8"
    by (simp add: scenarioUser_def johnSmith_def)
  have 5: "endHour (activeHours (typicalSpendingPatterns scenarioUser)) = 23"
    by (simp add: scenarioUser_def johnSmith_def)
  have 6: "groceryPurchase (twoPM - 3600000)
      \<in> set [groceryPurchase (twoPM - 3600000), groceryPurchase (twoPM - 7200000)]"
    by simp
  have 7: "deviceId (groceryPurchase (twoPM - 3600000)) = ''dev1''"
    by (simp add: groceryPurchase_def)
  have 8: "recentCount (utcClock (twoPM + 60000))
      [groceryPurchase (twoPM - 3600000), groceryPurchase (twoPM - 7200000)] \<le> 2"
    by (simp add: recentCount_def Let_def)
  have 9: "amount (electronicsPurchase 550 twoPM) = 550"
    by (simp add: electronicsPurchase_def)
  have 10: "country (location (electronicsPurchase 550 twoPM)) = ''Nigeria''"
    by (simp add: electronicsPurchase_def)
  have 11: "merchantCategory (electronicsPurchase 550 twoPM) = ''electronics''"
    by (simp add: electronicsPurchase_def)
  have 12: "getHours (utcClock (twoPM + 60000)) (timestamp (electronicsPurchase 550 twoPM)) = 14"
    by (simp add: electronicsPurchase_def utcClock_def utcHours_def twoPM_def)
  have 13: "deviceId (electronicsPurchase 550 twoPM) = ''dev1''"
    by (simp add: electronicsPurchase_def)
  show ?thesis
    by (rule scenario_score_60 [OF 1 2 3 4 5 6 7 8 9 10 11 12 13])
qed

section \<open>The high-risk threshold\<close>

text \<open>
  Claim C2. On every input, also without a profile, \<^verbatim>\<open>isHighRisk\<close> is true exactly
  when the score is strictly above 70; \<^verbatim>\<open>processTransaction\<close> stores that score as
  \<^verbatim>\<open>fraudScore\<close> and sets \<^verbatim>\<open>isFlagged\<close> by the same strict comparison.
\<close>

theorem high_risk_iff_above_70:
  "isHighRisk (analyzeTransaction c found rs tx) = (score (analyzeTransaction c found rs tx) > 70)
   \<and> fraudScore (savedTransaction (processTransaction c found rs tx))
       = score (analyzeTransaction c found rs tx)
   \<and> isFlagged (savedTransaction (processTransaction c found rs tx))
       = (score (analyzeTransaction c found rs tx) > 70)"
  by (cases found) (simp_all add: analyze_found analyze_not_found processTransaction_def Let_def)

text \<open>A score of exactly 70 is reached (25 + 20 + 20 + 5) and is not high risk.\<close>

lemma score_70_is_not_high_risk:
  "analyzeTransaction (utcClock (twoPM + 60000)) (Some johnSmith)
       (replicate 9 (groceryPurchase twoPM))
       ((electronicsPurchase 700 twoPM)\<lparr>merchantCategory := ''groceries'', deviceId := ''dev2''\<rparr>)
   = \<lparr>score = 70,
    riskFactors =
      [''Transaction amount 5x higher than user average'',
       ''Transaction from foreign country'',
       ''Extremely high transaction frequency (>8 in 24h)'',
       ''Transaction from new device''],
    isHighRisk = False, error = None\<rparr>"
  by code_simp

section \<open>Amount tiers\<close>

text \<open>
  Claim C3, as stated, fails for a profile whose stored average is 0: the code puts
  100 in its place, so an amount of 10, which is more than five times the stored
  average, contributes nothing; and five and a half times that average and three and
  a half times it are the same amount, with the same score.
\<close>

theorem amount_tiers_zero_average_counterexample:
  "averageTransactionAmount (typicalSpendingPatterns zeroAverageUser) = Some 0
   \<and> amount ((groceryPurchase twoPM)\<lparr>amount := 10\<rparr>) > 5 * 0
   \<and> contribution (amountFactor zeroAverageUser ((groceryPurchase twoPM)\<lparr>amount := 10\<rparr>)) = 0
   \<and> score (analyzeTransaction (utcClock twoPM) (Some zeroAverageUser) []
         ((groceryPurchase twoPM)\<lparr>amount := jsTimes 0 (55 / 10)\<rparr>))
     = score (analyzeTransaction (utcClock twoPM) (Some zeroAverageUser) []
         ((groceryPurchase twoPM)\<lparr>amount := jsTimes 0 (35 / 10)\<rparr>))"
  by code_simp

text \<open>
  Claim C3, amended. For a profile whose stored average \<open>a\<close> is not 0, the amount
  block contributes the value of one tier, the first that matches from the top: 25
  when the amount is above \<^verbatim>\<open>a * 5\<close>, 0.8 * 25 = 20 when above \<^verbatim>\<open>a * 3\<close>,
  0.5 * 25 = 12.5 when above \<^verbatim>\<open>a * 2\<close>, else 0, the products being the doubles the
  code computes; it adds that value to whatever the score was, so tiers never stack.
  For a positive average of the normal range of doubles (from \<open>2^(-1022)\<close> to
  \<open>2^1021\<close>), the transaction at \<^verbatim>\<open>a * 5.5\<close> scores exactly 5 more than the same
  transaction at \<^verbatim>\<open>a * 3.5\<close>.
\<close>

theorem amount_tiers_against_stored_average:
  assumes "averageTransactionAmount (typicalSpendingPatterns u) = Some a"
    and "a \<noteq> 0"
  shows "contribution (amountFactor u tx) =
       (if amount tx > jsTimes a 5 then 25
        else if amount tx > jsTimes a 3 then 8 / 10 * 25
        else if amount tx > jsTimes a 2 then 5 / 10 * 25
        else 0)
     \<and> additive (amountFactor u tx) t
     \<and> (minNormal \<le> a \<and> a \<le> maxAverage \<longrightarrow>
          score (analyzeTransaction c (Some u) rs (tx\<lparr>amount := jsTimes a (55 / 10)\<rparr>))
          = score (analyzeTransaction c (Some u) rs (tx\<lparr>amount := jsTimes a (35 / 10)\<rparr>)) + 5)"
proof (intro conjI impI)
  have avg: "userAvgAmount u = a"
    using assms by (simp add: userAvgAmount_def)
  show "contribution (amountFactor u tx) =
       (if amount tx > jsTimes a 5 then 25
        else if amount tx > jsTimes a 3 then 8 / 10 * 25
        else if amount tx > jsTimes a 2 then 5 / 10 * 25
        else 0)"
    by (simp add: amount_contribution avg)
  show "additive (amountFactor u tx) t"
    by (rule amountFactor_additive)
  assume range: "minNormal \<le> a \<and> a \<le> maxAverage"
  let ?hi = "tx\<lparr>amount := jsTimes a (55 / 10)\<rparr>"
  let ?lo = "tx\<lparr>amount := jsTimes a (35 / 10)\<rparr>"
  have sep: "jsTimes a 5 < jsTimes a (55 / 10)" "jsTimes a 3 < jsTimes a (35 / 10)"
    "jsTimes a (35 / 10) \<le> jsTimes a 5"
    using range by (simp_all only: tiers_separate)
  have hi: "contribution (amountFactor u ?hi) = 25"
    using sep(1) by (simp only: amount_contribution avg) simp
  have lo: "contribution (amountFactor u ?lo) = 20"
    using sep(2,3) by (simp only: amount_contribution avg) simp
  have same: "contribution (locationFactor u ?hi) = contribution (locationFactor u ?lo)"
    "contribution (categoryFactor u ?hi) = contribution (categoryFactor u ?lo)"
    "contribution (timeFactor c u ?hi) = contribution (timeFactor c u ?lo)"
    "contribution (deviceFactor rs ?hi) = contribution (deviceFactor rs ?lo)"
    by (simp_all add: location_contribution category_contribution time_contribution
        device_contribution isKnownLocation_def isUnusualCategory_def
        isOutsideActiveHours_def isKnownDevice_def)
  show "score (analyzeTransaction c (Some u) rs ?hi)
        = score (analyzeTransaction c (Some u) rs ?lo) + 5"
    by (simp only: analyze_found hi lo same) simp
qed

text \<open>For the first seed user (average 120): a purchase of 110 contributes nothing, and
  660 scores 5 more than 420.\<close>

theorem amount_tiers_against_stored_average_witness:
  "averageTransactionAmount (typicalSpendingPatterns johnSmith) = Some 120
   \<and> (120::rat) \<noteq> 0 \<and> minNormal \<le> 120 \<and> 120 \<le> maxAverage
   \<and> contribution (amountFactor johnSmith (groceryPurchase twoPM)) = 0
   \<and> score (analyzeTransaction (utcClock twoPM) (Some johnSmith) [] (groceryPurchase twoPM\<lparr>amount := 660\<rparr>))
     = score (analyzeTransaction (utcClock twoPM) (Some johnSmith) [] (groceryPurchase twoPM\<lparr>amount := 420\<rparr>)) + 5"
proof -
  have avg: "averageTransactionAmount (typicalSpendingPatterns johnSmith) = Some 120"
    by (simp add: johnSmith_def)
  have nz: "(120::rat) \<noteq> 0"
    by simp
  have amt: "amount (groceryPurchase twoPM) = 110"
    by (simp add: groceryPurchase_def)
  show ?thesis
    using amount_tiers_against_stored_average
      [OF avg nz, of "groceryPurchase twoPM" tally0 "utcClock twoPM" "[]"]
      avg normal_range_120
    by (simp add: thresholds_of_120 amt)
qed

text \<open>The products are the code's doubles: \<^verbatim>\<open>0.1 * 3\<close> is
  \<^verbatim>\<open>0.30000000000000004\<close>, so that amount against the average \<^verbatim>\<open>0.1\<close> is not
  above the second threshold and gets the third tier.\<close>

lemma amount_tier_at_rounded_threshold:
  "jsTimes (toDouble (1 / 10)) 3 = 1351079888211149 / 4503599627370496
   \<and> contribution
        (amountFactor
          (johnSmith\<lparr>typicalSpendingPatterns :=
             (typicalSpendingPatterns johnSmith)
               \<lparr>averageTransactionAmount := Some (toDouble (1 / 10))\<rparr>\<rparr>)
          ((groceryPurchase twoPM)\<lparr>amount := 1351079888211149 / 4503599627370496\<rparr>))
      = 25 / 2"
  by code_simp

section \<open>A missing profile\<close>

text \<open>
  Claim C4, as stated, fails: when no profile is found, the error is thrown inside the
  \<^verbatim>\<open>try\<close> block and caught by the function's own \<^verbatim>\<open>catch\<close>. The caller receives
  an ordinary result object, and \<^verbatim>\<open>processTransaction\<close> saves the transaction with
  score 0, unflagged.
\<close>

theorem missing_profile_is_recovered_counterexample:
  "analyzeBody (utcClock twoPM) None [] (electronicsPurchase 550 twoPM) = Inl ''User not found''
   \<and> analyzeTransaction (utcClock twoPM) None [] (electronicsPurchase 550 twoPM)
       = \<lparr>score = 0, riskFactors = [''Error analyzing transaction''], isHighRisk = False,
          error = Some ''User not found''\<rparr>
   \<and> savedTransaction (processTransaction (utcClock twoPM) None [] (electronicsPurchase 550 twoPM))
       = (electronicsPurchase 550 twoPM)\<lparr>fraudScore := 0, isFlagged := False\<rparr>"
  by (simp add: analyze_not_found analyzeBody_def processTransaction_def electronicsPurchase_def)

text \<open>
  Claim C4, amended. A missing profile does not fail the invocation: the result is
  score 0, the one string \<^verbatim>\<open>Error analyzing transaction\<close>, not high risk, with the
  message \<^verbatim>\<open>User not found\<close> in the field \<^verbatim>\<open>error\<close>; \<^verbatim>\<open>processTransaction\<close>
  saves the transaction with \<^verbatim>\<open>fraudScore\<close> 0 and \<^verbatim>\<open>isFlagged\<close> false and replies
  with that result. The field \<^verbatim>\<open>error\<close> is absent exactly when a profile was found.
\<close>

theorem missing_profile_gives_fallback_result:
  "analyzeTransaction c None rs tx
     = \<lparr>score = 0, riskFactors = [''Error analyzing transaction''], isHighRisk = False,
        error = Some ''User not found''\<rparr>
   \<and> savedTransaction (processTransaction c None rs tx)
     = tx\<lparr>fraudScore := 0, isFlagged := False\<rparr>
   \<and> fraudAnalysis (processTransaction c None rs tx) = analyzeTransaction c None rs tx
   \<and> error (analyzeTransaction c (Some u) rs tx) = None
   \<and> (error (analyzeTransaction c found rs tx) = None) = (found \<noteq> None)"
  by (cases found) (simp_all add: analyze_not_found analyze_found processTransaction_def)

section \<open>Dependence on the clock\<close>

text \<open>
  Claim C5, as stated, fails: the frequency block reads \<^verbatim>\<open>Date.now()\<close>. The same
  transaction, profile and history of nine purchases score 20 one hour after the
  purchases and 0 twenty-five hours after them.
\<close>

theorem result_depends_on_clock_counterexample:
  "analyzeTransaction (utcClock (twoPM + 3600000)) (Some johnSmith)
       (replicate 9 (groceryPurchase twoPM)) (groceryPurchase twoPM)
     = \<lparr>score = 20, riskFactors = [''Extremely high transaction frequency (>8 in 24h)''],
        isHighRisk = False, error = None\<rparr>
   \<and> analyzeTransaction (utcClock (twoPM + 90000000)) (Some johnSmith)
       (replicate 9 (groceryPurchase twoPM)) (groceryPurchase twoPM)
     = \<lparr>score = 0, riskFactors = [], isHighRisk = False, error = None\<rparr>"
  by code_simp

text \<open>
  Claim C5, amended. The result is a function of the transaction, the profile lookup,
  the recent history and two readings of the environment: the local hour of the
  transaction's timestamp and the number of history entries newer than 24 hours before
  now. Two invocations that agree on these return the same result.
\<close>

theorem result_determined_by_inputs_and_clock:
  assumes "getHours c1 (timestamp tx) = getHours c2 (timestamp tx)"
    and "recentCount c1 rs = recentCount c2 rs"
  shows "analyzeTransaction c1 found rs tx = analyzeTransaction c2 found rs tx"
proof (cases found)
  case None
  then show ?thesis by (simp add: analyze_not_found)
next
  case (Some u)
  have t: "contribution (timeFactor c1 u tx) = contribution (timeFactor c2 u tx)"
    "labels (timeFactor c1 u tx) = labels (timeFactor c2 u tx)"
    using assms(1) by (simp_all add: time_contribution time_labels isOutsideActiveHours_def)
  have f: "contribution (frequencyFactor c1 rs) = contribution (frequencyFactor c2 rs)"
    "labels (frequencyFactor c1 rs) = labels (frequencyFactor c2 rs)"
    using assms(2) by (simp_all add: frequency_contribution frequency_labels)
  show ?thesis
    by (simp add: Some analyze_found t f)
qed

text \<open>One hour and two hours after nine purchases, the results agree.\<close>

theorem result_determined_by_inputs_and_clock_witness:
  "getHours (utcClock (twoPM + 3600000)) (timestamp (groceryPurchase twoPM))
     = getHours (utcClock (twoPM + 7200000)) (timestamp (groceryPurchase twoPM))
   \<and> recentCount (utcClock (twoPM + 3600000)) (replicate 9 (groceryPurchase twoPM))
     = recentCount (utcClock (twoPM + 7200000)) (replicate 9 (groceryPurchase twoPM))
   \<and> analyzeTransaction (utcClock (twoPM + 3600000)) (Some johnSmith)
       (replicate 9 (groceryPurchase twoPM)) (groceryPurchase twoPM)
     = analyzeTransaction (utcClock (twoPM + 7200000)) (Some johnSmith)
       (replicate 9 (groceryPurchase twoPM)) (groceryPurchase twoPM)"
proof -
  have h: "getHours (utcClock (twoPM + 3600000)) (timestamp (groceryPurchase twoPM))
     = getHours (utcClock (twoPM + 7200000)) (timestamp (groceryPurchase twoPM))"
    by (simp add: utcClock_def)
  have r: "recentCount (utcClock (twoPM + 3600000)) (replicate 9 (groceryPurchase twoPM))
     = recentCount (utcClock (twoPM + 7200000)) (replicate 9 (groceryPurchase twoPM))"
    by (simp add: recentCount_def utcClock_def groceryPurchase_def twoPM_def Let_def)
  show ?thesis
    using result_determined_by_inputs_and_clock [OF h r, of "Some johnSmith"] h r by simp
qed

section \<open>A profile without an average amount\<close>

text \<open>
  Claim C6, as stated, fails: without a stored average the amount is compared with the
  default 100, so a transaction of 600 gets the full 25 from the amount block.
\<close>

theorem missing_baseline_counterexample:
  "averageTransactionAmount (typicalSpendingPatterns noBaselineUser) = None
   \<and> contribution (amountFactor noBaselineUser (electronicsPurchase 600 twoPM)) = 25
   \<and> score (analyzeTransaction (utcClock twoPM) (Some noBaselineUser) [groceryPurchase twoPM]
        ((electronicsPurchase 600 twoPM)
           \<lparr>location := location (groceryPurchase twoPM), merchantCategory := ''groceries''\<rparr>)) = 25"
  by code_simp

text \<open>
  Claim C6, amended. A missing average (or the average 0) is no error; the amount block
  then uses the baseline 100: it contributes 25 above 500, 20 above 300, 12.5 above
  200, and 0 up to 200.
\<close>

theorem missing_baseline_defaults_to_100:
  assumes "averageTransactionAmount (typicalSpendingPatterns u) = None
           \<or> averageTransactionAmount (typicalSpendingPatterns u) = Some 0"
  shows "contribution (amountFactor u tx) =
           (if amount tx > 500 then 25 else if amount tx > 300 then 20
            else if amount tx > 200 then 25 / 2 else 0)
         \<and> error (analyzeTransaction c (Some u) rs tx) = None"
proof -
  have "userAvgAmount u = 100"
    using assms by (auto simp: userAvgAmount_def)
  then show ?thesis
    by (simp add: amount_contribution thresholds_of_100 analyze_found)
qed

text \<open>The seed user without an average: 350 gives 20, and 110 gives 0.\<close>

theorem missing_baseline_defaults_to_100_witness:
  "(averageTransactionAmount (typicalSpendingPatterns noBaselineUser) = None
           \<or> averageTransactionAmount (typicalSpendingPatterns noBaselineUser) = Some 0)
   \<and> contribution (amountFactor noBaselineUser (electronicsPurchase 350 twoPM)) = 20
   \<and> contribution (amountFactor noBaselineUser (groceryPurchase twoPM)) = 0"
proof -
  have h: "averageTransactionAmount (typicalSpendingPatterns noBaselineUser) = None
           \<or> averageTransactionAmount (typicalSpendingPatterns noBaselineUser) = Some 0"
    by (simp add: noBaselineUser_def)
  show ?thesis
    using h missing_baseline_defaults_to_100 [OF h, of "electronicsPurchase 350 twoPM" "utcClock twoPM" "[]"]
      missing_baseline_defaults_to_100 [OF h, of "groceryPurchase twoPM" "utcClock twoPM" "[]"]
    by (simp add: electronicsPurchase_def groceryPurchase_def)
qed

section \<open>Statistics of an empty collection\<close>

text \<open>
  Claim C7, as stated, fails: neither summary guards the division. On an empty
  collection the quotient \<^verbatim>\<open>0 / 0\<close> is \<^verbatim>\<open>NaN\<close>, it stays \<^verbatim>\<open>NaN\<close> when
  multiplied by 100, and \<^verbatim>\<open>toFixed(2)\<close> prints it as the string \<^verbatim>\<open>NaN\<close>.
\<close>

theorem empty_corpus_percentage_counterexample:
  "times (divideCounts (countDocuments (\<lambda>t. isFlagged t = True) [])
       (countDocuments (\<lambda>t. True) [])) 100 = NaN
   \<and> flaggedPercentage (getFraudStatistics []) = ''NaN''
   \<and> flaggedPercentage (getTransactionStats []) = ''NaN''
   \<and> flaggedPercentage (getFraudStatistics []) \<noteq> ''0.00''"
  by (simp add: getFraudStatistics_def getTransactionStats_def countDocuments_def divideCounts_def)

text \<open>
  Claim C7, amended. On an empty collection both summaries are returned without a
  fault, with the three counts 0 and with \<^verbatim>\<open>flaggedPercentage\<close> the string
  \<^verbatim>\<open>NaN\<close>.
\<close>

theorem empty_corpus_summary:
  "getFraudStatistics [] =
     \<lparr>totalTransactions = 0, flaggedTransactions = 0, confirmedFraudTransactions = 0,
      flaggedPercentage = ''NaN''\<rparr>
   \<and> getTransactionStats [] =
     \<lparr>totalTransactions = 0, flaggedTransactions = 0, confirmedFraudTransactions = 0,
      flaggedPercentage = ''NaN''\<rparr>"
  by (simp add: getFraudStatistics_def getTransactionStats_def countDocuments_def divideCounts_def)

text \<open>On a collection that is not empty the percentage is a decimal with two places.\<close>

lemma percentage_of_one_flagged_in_three:
  "flaggedPercentage (getFraudStatistics [groceryPurchase 0, flaggedPurchase, groceryPurchase 1])
     = ''33.33''"
  by code_simp

text \<open>The quotient is rounded as a double before it is printed: 23 flagged of 160 is
  a little less than 14.375.\<close>

lemma percentage_of_23_in_160:
  "toFixed2 (times (divideCounts 23 160) 100) = ''14.37''"
  by code_simp

section \<open>The score as a sum\<close>

text \<open>
  Claim C8. With a profile at hand, the score is the sum of the six contributions.
  Each block is additive: at any running score and list it adds its contribution and
  appends its strings, whatever the other blocks did. Each contribution lies between 0
  and the weight of its factor, so the score lies between 0 and 100. The list of risk
  factors is the concatenation, in the order amount, location, category, time,
  frequency, device, of the blocks' strings, and a block gives one string when its
  contribution is positive and none otherwise.
\<close>

theorem score_is_sum_of_bounded_contributions:
  "score (analyzeTransaction c (Some u) rs tx) =
       contribution (amountFactor u tx) + contribution (locationFactor u tx)
     + contribution (categoryFactor u tx) + contribution (timeFactor c u tx)
     + contribution (frequencyFactor c rs) + contribution (deviceFactor rs tx)
   \<and> additive (amountFactor u tx) t \<and> additive (locationFactor u tx) t
   \<and> additive (categoryFactor u tx) t \<and> additive (timeFactor c u tx) t
   \<and> additive (frequencyFactor c rs) t \<and> additive (deviceFactor rs tx) t
   \<and> 0 \<le> contribution (amountFactor u tx)
   \<and> contribution (amountFactor u tx) \<le> wAmount weights
   \<and> 0 \<le> contribution (locationFactor u tx)
   \<and> contribution (locationFactor u tx) \<le> wLocation weights
   \<and> 0 \<le> contribution (categoryFactor u tx)
   \<and> contribution (categoryFactor u tx) \<le> wCategory weights
   \<and> 0 \<le> contribution (timeFactor c u tx)
   \<and> contribution (timeFactor c u tx) \<le> wTime weights
   \<and> 0 \<le> contribution (frequencyFactor c rs)
   \<and> contribution (frequencyFactor c rs) \<le> wFrequency weights
   \<and> 0 \<le> contribution (deviceFactor rs tx)
   \<and> contribution (deviceFactor rs tx) \<le> wDevice weights
   \<and> 0 \<le> score (analyzeTransaction c (Some u) rs tx)
   \<and> score (analyzeTransaction c (Some u) rs tx) \<le> 100
   \<and> riskFactors (analyzeTransaction c (Some u) rs tx) =
       labels (amountFactor u tx) @ labels (locationFactor u tx)
     @ labels (categoryFactor u tx) @ labels (timeFactor c u tx)
     @ labels (frequencyFactor c rs) @ labels (deviceFactor rs tx)
   \<and> length (labels (amountFactor u tx))
       = (if 0 < contribution (amountFactor u tx) then 1 else 0)
   \<and> length (labels (locationFactor u tx))
       = (if 0 < contribution (locationFactor u tx) then 1 else 0)
   \<and> length (labels (categoryFactor u tx))
       = (if 0 < contribution (categoryFactor u tx) then 1 else 0)
   \<and> length (labels (timeFactor c u tx))
       = (if 0 < contribution (timeFactor c u tx) then 1 else 0)
   \<and> length (labels (frequencyFactor c rs))
       = (if 0 < contribution (frequencyFactor c rs) then 1 else 0)
   \<and> length (labels (deviceFactor rs tx))
       = (if 0 < contribution (deviceFactor rs tx) then 1 else 0)"
proof -
  have a: "0 \<le> contribution (amountFactor u tx)" "contribution (amountFactor u tx) \<le> 25"
    "length (labels (amountFactor u tx)) = (if 0 < contribution (amountFactor u tx) then 1 else 0)"
    by (simp_all add: amount_contribution amount_labels)
  have l: "0 \<le> contribution (locationFactor u tx)" "contribution (locationFactor u tx) \<le> 20"
    "length (labels (locationFactor u tx)) = (if 0 < contribution (locationFactor u tx) then 1 else 0)"
    by (simp_all add: location_contribution location_labels)
  have g: "0 \<le> contribution (categoryFactor u tx)" "contribution (categoryFactor u tx) \<le> 15"
    "length (labels (categoryFactor u tx)) = (if 0 < contribution (categoryFactor u tx) then 1 else 0)"
    by (simp_all add: category_contribution category_labels)
  have h: "0 \<le> contribution (timeFactor c u tx)" "contribution (timeFactor c u tx) \<le> 15"
    "length (labels (timeFactor c u tx)) = (if 0 < contribution (timeFactor c u tx) then 1 else 0)"
    by (simp_all add: time_contribution time_labels)
  have f: "0 \<le> contribution (frequencyFactor c rs)" "contribution (frequencyFactor c rs) \<le> 20"
    "length (labels (frequencyFactor c rs)) = (if 0 < contribution (frequencyFactor c rs) then 1 else 0)"
    by (simp_all add: frequency_contribution frequency_labels)
  have d: "0 \<le> contribution (deviceFactor rs tx)" "contribution (deviceFactor rs tx) \<le> 5"
    "length (labels (deviceFactor rs tx)) = (if 0 < contribution (deviceFactor rs tx) then 1 else 0)"
    by (simp_all add: device_contribution device_labels)
  have s: "score (analyzeTransaction c (Some u) rs tx) =
       contribution (amountFactor u tx) + contribution (locationFactor u tx)
     + contribution (categoryFactor u tx) + contribution (timeFactor c u tx)
     + contribution (frequencyFactor c rs) + contribution (deviceFactor rs tx)"
    by (simp add: analyze_found)
  have r: "riskFactors (analyzeTransaction c (Some u) rs tx) =
       labels (amountFactor u tx) @ labels (locationFactor u tx)
     @ labels (categoryFactor u tx) @ labels (timeFactor c u tx)
     @ labels (frequencyFactor c rs) @ labels (deviceFactor rs tx)"
    by (simp add: analyze_found)
  have lo: "0 \<le> score (analyzeTransaction c (Some u) rs tx)"
    unfolding s using a(1) l(1) g(1) h(1) f(1) d(1) by linarith
  have hi: "score (analyzeTransaction c (Some u) rs tx) \<le> 100"
    unfolding s using a(2) l(2) g(2) h(2) f(2) d(2) by linarith
  have w: "wAmount weights = 25" "wLocation weights = 20" "wCategory weights = 15"
    "wTime weights = 15" "wFrequency weights = 20" "wDevice weights = 5"
    by (simp_all add: weights_def)
  show ?thesis
    unfolding w
    by (intro conjI s r lo hi a l g h f d amountFactor_additive locationFactor_additive
        categoryFactor_additive timeFactor_additive frequencyFactor_additive
        deviceFactor_additive)
qed

text \<open>All six factors at full weight: score 100, six strings, high risk.\<close>

lemma all_six_factors_give_100:
  "analyzeTransaction (utcClock (twoPM - 9 * 3600000)) (Some johnSmith)
       (replicate 9 (groceryPurchase (twoPM - 10 * 3600000)))
       ((electronicsPurchase 700 (twoPM - 9 * 3600000))\<lparr>deviceId := ''dev2''\<rparr>)
   = \<lparr>score = 100,
      riskFactors =
        [''Transaction amount 5x higher than user average'',
         ''Transaction from foreign country'',
         ''Unusual merchant category for this user'',
         ''Transaction outside typical active hours'',
         ''Extremely high transaction frequency (>8 in 24h)'',
         ''Transaction from new device''],
      isHighRisk = True, error = None\<rparr>"
  by code_simp

section \<open>A first transaction\<close>

text \<open>
  Claim C9. With an empty recent history the frequency block contributes 0 and the
  device block contributes 5 exactly when the device identifier is not the literal
  \<^verbatim>\<open>unknown_device\<close>: every first transaction from an identified device gets the
  new-device contribution and its string.
\<close>

theorem first_transaction_frequency_and_device:
  "contribution (frequencyFactor c []) = 0
   \<and> labels (frequencyFactor c []) = []
   \<and> (contribution (deviceFactor [] tx) = 5) = (deviceId tx \<noteq> ''unknown_device'')
   \<and> contribution (deviceFactor [] tx) = (if deviceId tx = ''unknown_device'' then 0 else 5)
   \<and> score (analyzeTransaction c (Some u) [] tx) =
       contribution (amountFactor u tx) + contribution (locationFactor u tx)
     + contribution (categoryFactor u tx) + contribution (timeFactor c u tx)
     + (if deviceId tx = ''unknown_device'' then 0 else 5)
   \<and> riskFactors (analyzeTransaction c (Some u) [] tx) =
       labels (amountFactor u tx) @ labels (locationFactor u tx)
     @ labels (categoryFactor u tx) @ labels (timeFactor c u tx)
     @ (if deviceId tx = ''unknown_device'' then [] else [''Transaction from new device''])"
  by (simp add: analyze_found frequency_contribution frequency_labels device_contribution
      device_labels recentCount_def isKnownDevice_def)

section \<open>The fraud-status update\<close>

text \<open>
  Claim C10. For a stored transaction and a supplied boolean, \<^verbatim>\<open>updateFraudStatus\<close>
  replies with the updated document and stores it under the same id:
  \<^verbatim>\<open>isConfirmedFraud\<close> is the supplied boolean, \<^verbatim>\<open>isFlagged\<close> is false when the
  boolean is false and unchanged when it is true, \<^verbatim>\<open>fraudScore\<close> is unchanged, and
  so is every other field (putting the two old flags back gives the old document).
\<close>

theorem updateFraudStatus_frame:
  assumes "db ident = Some tx"
  shows "\<exists>tx'. updateFraudStatus db ident (Some confirmed) = (db(ident \<mapsto> tx'), Status200 tx')
     \<and> isConfirmedFraud tx' = confirmed
     \<and> isFlagged tx' = (if confirmed then isFlagged tx else False)
     \<and> fraudScore tx' = fraudScore tx
     \<and> tx'\<lparr>isFlagged := isFlagged tx, isConfirmedFraud := isConfirmedFraud tx\<rparr> = tx"
proof (cases confirmed)
  case True
  let ?tx' = "tx\<lparr>isConfirmedFraud := True\<rparr>"
  have "updateFraudStatus db ident (Some confirmed) = (db(ident \<mapsto> ?tx'), Status200 ?tx')"
    using assms True by (simp add: updateFraudStatus_def Let_def)
  moreover have "?tx'\<lparr>isFlagged := isFlagged tx, isConfirmedFraud := isConfirmedFraud tx\<rparr> = tx"
    by simp
  ultimately show ?thesis
    using True by (intro exI [of _ ?tx']) simp
next
  case False
  let ?tx' = "tx\<lparr>isConfirmedFraud := False, isFlagged := False\<rparr>"
  have "updateFraudStatus db ident (Some confirmed) = (db(ident \<mapsto> ?tx'), Status200 ?tx')"
    using assms False by (simp add: updateFraudStatus_def Let_def)
  moreover have "?tx'\<lparr>isFlagged := isFlagged tx, isConfirmedFraud := isConfirmedFraud tx\<rparr> = tx"
    by simp
  ultimately show ?thesis
    using False by (intro exI [of _ ?tx']) simp
qed

text \<open>The flagged seed purchase, stored under the id 7, rejected and then confirmed.\<close>

theorem updateFraudStatus_frame_witness:
  "(Map.empty(7 \<mapsto> flaggedPurchase)) (7::nat) = Some flaggedPurchase
   \<and> updateFraudStatus (Map.empty(7 \<mapsto> flaggedPurchase)) 7 (Some False)
       = (Map.empty(7 \<mapsto> flaggedPurchase\<lparr>isFlagged := False\<rparr>),
          Status200 (flaggedPurchase\<lparr>isFlagged := False\<rparr>))
   \<and> updateFraudStatus (Map.empty(7 \<mapsto> flaggedPurchase)) 7 (Some True)
       = (Map.empty(7 \<mapsto> flaggedPurchase\<lparr>isConfirmedFraud := True\<rparr>),
          Status200 (flaggedPurchase\<lparr>isConfirmedFraud := True\<rparr>))"
proof -
  have h: "(Map.empty(7 \<mapsto> flaggedPurchase)) (7::nat) = Some flaggedPurchase"
    by simp
  have f: "isFlagged flaggedPurchase" "\<not> isConfirmedFraud flaggedPurchase"
    by (simp_all add: flaggedPurchase_def electronicsPurchase_def)
  have u: "flaggedPurchase\<lparr>isConfirmedFraud := False, isFlagged := False\<rparr>
      = flaggedPurchase\<lparr>isFlagged := False\<rparr>"
    by (simp add: flaggedPurchase_def electronicsPurchase_def)
  show ?thesis
    using updateFraudStatus_frame [of "Map.empty(7 \<mapsto> flaggedPurchase)" 7 flaggedPurchase False, OF h]
      updateFraudStatus_frame [of "Map.empty(7 \<mapsto> flaggedPurchase)" 7 flaggedPurchase True, OF h]
    by (simp add: updateFraudStatus_def Let_def u)
qed

text \<open>A request without the field, or for an unknown id, changes nothing.\<close>

lemma updateFraudStatus_rejects:
  "updateFraudStatus db ident None = (db, Status400 ''isConfirmedFraud field is required'')"
  "db ident = None \<Longrightarrow>
     updateFraudStatus db ident (Some confirmed) = (db, Status404 ''Transaction not found'')"
  by (simp_all add: updateFraudStatus_def)

end
